theory Spec2Isabelle
  imports Complex_Main "HOL-Library.AList"
begin

section \<open>P2P fiat trading client (module p2p-fiat): data model\<close>

text \<open>
  The module is a client of a hosted database: every operation is a short sequence of
  requests (row selects, row updates, remote procedure calls) against the tables
  \<open>p2p_fiat_offers\<close>, \<open>p2p_fiat_trades\<close> and \<open>p2p_reputation\<close>. The embedding keeps
  the tables as lists of rows inside one \<open>backend\<close> state that each operation takes and
  returns. TypeScript's \<open>number\<close> is modelled by exact rationals for token and fiat
  amounts, by integers for counts and scores, and by integers (milliseconds since the
  epoch) for timestamps; \<open>NaN\<close> and rounding are outside the model. An optional field
  (\<open>x?: T\<close>) is an \<open>option\<close>. Record fields carry a prefix (\<open>o_\<close>, \<open>t_\<close>, \<open>r_\<close>) because
  the interfaces share field names such as \<open>id\<close> and \<open>status\<close>. Toast notifications and
  console output are not part of the state.
\<close>

datatype FiatCurrency =
  TRY | IQD | IRR | EUR | USD | GBP | SEK | CHF | NOK | DKK | AUD | CAD

datatype CryptoToken = HEZ | PEZ

datatype OfferStatus =
  OfferOpen | OfferPaused | OfferLocked | OfferCompleted | OfferCancelled

datatype TradeStatus =
  TradePending | TradePaymentSent | TradeCompleted | TradeCancelled
  | TradeDisputed | TradeRefunded

record ValidationRule =
  pattern :: "string option"
  minLength :: "nat option"
  maxLength :: "nat option"
  required :: "bool option"

record P2PFiatOffer =
  o_id :: string
  o_seller_id :: string
  o_seller_wallet :: string
  o_token :: CryptoToken
  o_amount_crypto :: rat
  o_fiat_currency :: FiatCurrency
  o_fiat_amount :: rat
  o_price_per_unit :: rat
  o_payment_method_id :: string
  o_payment_details_encrypted :: string
  o_min_order_amount :: "rat option"
  o_max_order_amount :: "rat option"
  o_time_limit_minutes :: int
  o_auto_reply_message :: "string option"
  o_min_buyer_completed_trades :: int
  o_min_buyer_reputation :: int
  o_status :: OfferStatus
  o_remaining_amount :: rat
  o_created_at :: int
  o_expires_at :: int

text \<open>
  The trade row has two columns that the interface \<open>P2PFiatTrade\<close> does not list but
  \<open>cancelTrade\<close> writes: \<open>cancelled_by\<close> and \<open>cancel_reason\<close>.
\<close>

record P2PFiatTrade =
  t_id :: string
  t_offer_id :: string
  t_seller_id :: string
  t_buyer_id :: string
  t_buyer_wallet :: string
  t_crypto_amount :: rat
  t_fiat_amount :: rat
  t_price_per_unit :: rat
  t_escrow_locked_amount :: rat
  t_buyer_marked_paid_at :: "int option"
  t_buyer_payment_proof_url :: "string option"
  t_seller_confirmed_at :: "int option"
  t_status :: TradeStatus
  t_payment_deadline :: int
  t_confirmation_deadline :: "int option"
  t_created_at :: int
  t_completed_at :: "int option"
  t_cancelled_by :: "string option"
  t_cancel_reason :: "string option"

datatype TrustLevel = New | Basic | Intermediate | Advanced | Verified

record P2PReputation =
  r_user_id :: string
  r_total_trades :: int
  r_completed_trades :: int
  r_cancelled_trades :: int
  r_disputed_trades :: int
  r_reputation_score :: int
  r_trust_level :: TrustLevel
  r_verified_merchant :: bool
  r_avg_payment_time_minutes :: "int option"

text \<open>
  Values thrown by the module. \<open>Error m\<close> is \<open>new Error(m)\<close> with the literal message of
  the source; the two messages built from a template carry their number instead:
  \<open>MinCompletedTradesError n\<close> is \<open>Minimum n completed trades required\<close> and
  \<open>MinReputationError n\<close> is \<open>Minimum reputation score n required\<close>. \<open>Thrown e\<close> is an
  error object of the database client rethrown as it is, \<open>TypeError\<close> a property read on
  \<open>null\<close>, \<open>SyntaxError\<close> a pattern that \<open>new RegExp\<close> refuses.
\<close>

datatype js_error =
  Error string
  | MinCompletedTradesError int
  | MinReputationError int
  | Thrown string
  | TypeError
  | SyntaxError

section \<open>Validation of payment details\<close>

text \<open>
  The messages stored in the errors object: \<open>This field is required\<close>,
  \<open>Invalid format\<close>, \<open>Minimum n characters\<close>, \<open>Maximum n characters\<close>.
\<close>

datatype field_message =
  FieldRequired | InvalidFormat | MinimumCharacters nat | MaximumCharacters nat

record validation_result =
  valid :: bool
  errors :: "(string \<times> field_message) list"

text \<open>
  What the read \<open>paymentDetails[field]\<close> can give. The entries of the object itself are
  strings. A name that is not a key of the object is looked up in \<open>Object.prototype\<close>,
  which every plain object inherits from: its eleven built-in functions, each with its
  number of parameters as \<open>length\<close>, and the accessor \<open>__proto__\<close>, which gives the
  prototype object (an object without \<open>length\<close>). Any other name gives \<open>undefined\<close>.
\<close>

datatype js_value = Str string | BuiltinFunction nat | PrototypeObject

definition object_prototype_member :: "string \<Rightarrow> js_value option" where
  "object_prototype_member name =
     map_of
       [(''constructor'', BuiltinFunction 1),
        (''__defineGetter__'', BuiltinFunction 2),
        (''__defineSetter__'', BuiltinFunction 2),
        (''hasOwnProperty'', BuiltinFunction 1),
        (''__lookupGetter__'', BuiltinFunction 1),
        (''__lookupSetter__'', BuiltinFunction 1),
        (''isPrototypeOf'', BuiltinFunction 1),
        (''propertyIsEnumerable'', BuiltinFunction 1),
        (''toString'', BuiltinFunction 0),
        (''valueOf'', BuiltinFunction 0),
        (''toLocaleString'', BuiltinFunction 0),
        (''__proto__'', PrototypeObject)] name"

text \<open>
  \<open>paymentDetails[field] || ''\<close>: an entry of the object gives its string (the empty
  string is falsy and gives the empty string again), an inherited member gives that
  member, and any other name gives the empty string.
\<close>

definition field_value :: "(string \<rightharpoonup> string) \<Rightarrow> string \<Rightarrow> js_value" where
  "field_value paymentDetails field =
     (case paymentDetails field of
        Some v \<Rightarrow> Str v
      | None \<Rightarrow> (case object_prototype_member field of None \<Rightarrow> Str [] | Some m \<Rightarrow> m))"

text \<open>Truthiness: only the empty string is falsy among these values.\<close>

definition truthy :: "js_value \<Rightarrow> bool" where
  "truthy v = (case v of Str s \<Rightarrow> s \<noteq> [] | _ \<Rightarrow> True)"

text \<open>
  \<open>value.length\<close>: the length of a string, the number of parameters of a function,
  \<open>undefined\<close> (\<open>None\<close>) for the prototype object. A comparison with \<open>undefined\<close> is false.
\<close>

definition value_length :: "js_value \<Rightarrow> nat option" where
  "value_length v =
     (case v of Str s \<Rightarrow> Some (length s) | BuiltinFunction n \<Rightarrow> Some n
      | PrototypeObject \<Rightarrow> None)"

text \<open>
  \<open>errors[field] = m\<close> on the plain object \<open>errors\<close>, kept as an association list in
  insertion order: the assignment adds or overwrites the entry, except for the name
  \<open>__proto__\<close>, whose setter ignores a string.
\<close>

definition set_error ::
  "string \<Rightarrow> 'm \<Rightarrow> (string \<times> 'm) list \<Rightarrow> (string \<times> 'm) list" where
  "set_error field m errs = (if field = ''__proto__'' then errs else AList.update field m errs)"

text \<open>
  The body of the loop for one entry of \<open>validationRules\<close>. JavaScript's regular
  expression engine is a parameter: \<open>regex_test p v\<close> is \<open>None\<close> when
  \<open>new RegExp(p)\<close> throws and \<open>Some (regex.test(v))\<close> otherwise (the engine converts
  \<open>v\<close> to a string). The guards are the source's truthiness tests:
  \<open>rules.pattern && value\<close> needs a non-empty pattern and a truthy value,
  \<open>rules.minLength && \<dots>\<close> a minimum other than 0.
\<close>

definition check_field ::
  "(string \<Rightarrow> js_value \<Rightarrow> bool option) \<Rightarrow> string \<Rightarrow> js_value \<Rightarrow> ValidationRule
     \<Rightarrow> (string \<times> field_message) list \<Rightarrow> js_error + (string \<times> field_message) list" where
  "check_field regex_test field val rules errs =
     (if required rules = Some True \<and> \<not> truthy val then
        Inr (set_error field FieldRequired errs)
      else
        (case (case pattern rules of
                 None \<Rightarrow> Inr errs
               | Some p \<Rightarrow>
                   if p \<noteq> [] \<and> truthy val then
                     (case regex_test p val of
                        None \<Rightarrow> Inl SyntaxError
                      | Some ok \<Rightarrow>
                          Inr (if \<not> ok then set_error field InvalidFormat errs else errs))
                   else Inr errs) of
           Inl e \<Rightarrow> Inl e
         | Inr errs1 \<Rightarrow>
             (let errs2 =
                    (case minLength rules of
                       None \<Rightarrow> errs1
                     | Some n \<Rightarrow>
                         if n \<noteq> 0 \<and> (case value_length val of None \<Rightarrow> False | Some l \<Rightarrow> l < n)
                         then set_error field (MinimumCharacters n) errs1 else errs1);
                  errs3 =
                    (case maxLength rules of
                       None \<Rightarrow> errs2
                     | Some n \<Rightarrow>
                         if n \<noteq> 0 \<and> (case value_length val of None \<Rightarrow> False | Some l \<Rightarrow> l > n)
                         then set_error field (MaximumCharacters n) errs2 else errs2)
              in Inr errs3)))"

text \<open>
  The loop over \<open>Object.entries(validationRules)\<close>, in the object's enumeration order; a
  thrown \<open>SyntaxError\<close> leaves the loop and the function.
\<close>

fun validate_entries ::
  "(string \<Rightarrow> js_value \<Rightarrow> bool option) \<Rightarrow> (string \<rightharpoonup> string)
     \<Rightarrow> (string \<times> ValidationRule) list \<Rightarrow> (string \<times> field_message) list
     \<Rightarrow> js_error + (string \<times> field_message) list" where
  "validate_entries regex_test paymentDetails [] errs = Inr errs"
| "validate_entries regex_test paymentDetails ((field, rules) # rest) errs =
     (case check_field regex_test field (field_value paymentDetails field) rules errs of
        Inl e \<Rightarrow> Inl e
      | Inr errs' \<Rightarrow> validate_entries regex_test paymentDetails rest errs')"

definition validatePaymentDetails ::
  "(string \<Rightarrow> js_value \<Rightarrow> bool option) \<Rightarrow> (string \<rightharpoonup> string)
     \<Rightarrow> (string \<times> ValidationRule) list \<Rightarrow> js_error + validation_result" where
  "validatePaymentDetails regex_test paymentDetails validationRules =
     (case validate_entries regex_test paymentDetails validationRules [] of
        Inl e \<Rightarrow> Inl e
      | Inr errs \<Rightarrow> Inr \<lparr>valid = (length (map fst errs) = 0), errors = errs\<rparr>)"

section \<open>The backend\<close>

text \<open>
  Modelled from the spec: the balances table is read and written only by database
  procedures that are not part of the client module. Section 3 of the specification gives
  its rows: one \<open>Balance\<close> per user and token, with an available and a locked part.
\<close>

record Balance =
  available :: rat
  locked :: rat
  totalDeposited :: rat
  totalWithdrawn :: rat

text \<open>
  The state every operation runs against: the signed-in user of the session (if any), the
  three tables the client reads and writes, and the ledger. \<open>unreachable\<close> models a
  backend that cannot be reached: every request is then answered with an error and no
  data, and changes nothing. Each row update is a request of its own that the database
  may refuse although the requests before it were answered: \<open>refused_updates\<close> lists,
  for the updates still to come, whether each one is refused (\<open>True\<close>); every update
  takes the head of the list, and after the list has run out every update is applied.
\<close>

record backend =
  unreachable :: bool
  refused_updates :: "bool list"
  session_user :: "string option"
  p2p_fiat_offers :: "P2PFiatOffer list"
  p2p_fiat_trades :: "P2PFiatTrade list"
  p2p_reputation :: "P2PReputation list"
  ledger :: "string \<times> CryptoToken \<Rightarrow> Balance"

text \<open>\<open>supabase.auth.getUser()\<close>: the id of \<open>data.user\<close>, or \<open>None\<close> for \<open>null\<close>.\<close>

definition getUser :: "backend \<Rightarrow> string option" where
  "getUser b = (if unreachable b then None else session_user b)"

text \<open>
  \<open>.single()\<close> yields the row when exactly one row matches and \<open>null\<close> otherwise; the
  callers read only \<open>data\<close>.
\<close>

definition single_row :: "'r list \<Rightarrow> 'r option" where
  "single_row rows = (case rows of [r] \<Rightarrow> Some r | _ \<Rightarrow> None)"

definition select_offer :: "backend \<Rightarrow> string \<Rightarrow> P2PFiatOffer option" where
  "select_offer b offerId =
     (if unreachable b then None
      else single_row (filter (\<lambda>row. o_id row = offerId) (p2p_fiat_offers b)))"

definition select_trade :: "backend \<Rightarrow> string \<Rightarrow> P2PFiatTrade option" where
  "select_trade b tradeId =
     (if unreachable b then None
      else single_row (filter (\<lambda>t. t_id t = tradeId) (p2p_fiat_trades b)))"

definition select_reputation :: "backend \<Rightarrow> string \<Rightarrow> P2PReputation option" where
  "select_reputation b userId =
     (if unreachable b then None
      else single_row (filter (\<lambda>r. r_user_id r = userId) (p2p_reputation b)))"

text \<open>
  \<open>.update(values).eq('id', i)\<close> rewrites every row with that id and reports no error
  when no row matches; the reply carries only the error. A refused update reports an
  error and writes nothing.
\<close>

definition update_rows :: "('r \<Rightarrow> bool) \<Rightarrow> ('r \<Rightarrow> 'r) \<Rightarrow> 'r list \<Rightarrow> 'r list" where
  "update_rows p f rows = map (\<lambda>r. if p r then f r else r) rows"

definition next_update :: "backend \<Rightarrow> bool \<times> backend" where
  "next_update b =
     (case refused_updates b of
        [] \<Rightarrow> (False, b)
      | refused # rest \<Rightarrow> (refused, b\<lparr>refused_updates := rest\<rparr>))"

definition update_trade ::
  "string \<Rightarrow> (P2PFiatTrade \<Rightarrow> P2PFiatTrade) \<Rightarrow> backend \<Rightarrow> string option \<times> backend" where
  "update_trade tradeId f b =
     (if unreachable b then (Some ''FetchError'', b)
      else
        (case next_update b of
           (True, b') \<Rightarrow> (Some ''UpdateRefused'', b')
         | (False, b') \<Rightarrow>
             (None, b'\<lparr>p2p_fiat_trades :=
                          update_rows (\<lambda>t. t_id t = tradeId) f (p2p_fiat_trades b')\<rparr>)))"

definition update_offer ::
  "string \<Rightarrow> (P2PFiatOffer \<Rightarrow> P2PFiatOffer) \<Rightarrow> backend \<Rightarrow> string option \<times> backend" where
  "update_offer offerId f b =
     (if unreachable b then (Some ''FetchError'', b)
      else
        (case next_update b of
           (True, b') \<Rightarrow> (Some ''UpdateRefused'', b')
         | (False, b') \<Rightarrow>
             (None, b'\<lparr>p2p_fiat_offers :=
                          update_rows (\<lambda>row. o_id row = offerId) f (p2p_fiat_offers b')\<rparr>)))"

text \<open>
  A remote procedure call answers with an error object or with data. The procedures run
  in the database and are parameters of the operations that call them. The response is
  taken after decoding (\<open>JSON.parse\<close> when it arrives as a string).
\<close>

datatype 'a rpc_reply = RpcError string | RpcData 'a

record rpc_response =
  success :: bool
  error :: "string option"

record accept_response = rpc_response +
  trade_id :: string

definition call_rpc ::
  "('a \<Rightarrow> backend \<Rightarrow> 'r rpc_reply \<times> backend) \<Rightarrow> 'a \<Rightarrow> backend
     \<Rightarrow> 'r rpc_reply \<times> backend" where
  "call_rpc proc args b = (if unreachable b then (RpcError ''FetchError'', b) else proc args b)"

text \<open>\<open>response.error || fallback\<close>: a missing or empty message gives the fallback.\<close>

definition error_or :: "string option \<Rightarrow> string \<Rightarrow> string" where
  "error_or e fallback = (case e of None \<Rightarrow> fallback | Some m \<Rightarrow> if m = [] then fallback else m)"

section \<open>Offers\<close>

text \<open>
  \<open>getActiveOffers\<close>: the query keeps the rows with \<open>status = 'open'\<close>,
  \<open>remaining_amount > 0\<close> and \<open>expires_at\<close> after the current time, restricted to the
  currency and the token when they are given, ordered by \<open>price_per_unit\<close> (ascending is
  the client's default). A failed request is caught and gives the empty list.
\<close>

definition getActiveOffers ::
  "int \<Rightarrow> FiatCurrency option \<Rightarrow> CryptoToken option \<Rightarrow> backend \<Rightarrow> P2PFiatOffer list" where
  "getActiveOffers now currency token b =
     (if unreachable b then []
      else
        sort_key o_price_per_unit
          (filter (\<lambda>row. o_status row = OfferOpen \<and> o_remaining_amount row > 0 \<and> o_expires_at row > now
                       \<and> (case currency of None \<Rightarrow> True | Some c \<Rightarrow> o_fiat_currency row = c)
                       \<and> (case token of None \<Rightarrow> True | Some t \<Rightarrow> o_token row = t))
             (p2p_fiat_offers b)))"

record accept_params =
  offerId :: string
  buyerWallet :: string
  amount :: "rat option"

record accept_args =
  p_offer_id :: string
  p_buyer_id :: string
  p_buyer_wallet :: string
  p_amount :: rat

type_synonym accept_p2p_offer =
  "accept_args \<Rightarrow> backend \<Rightarrow> accept_response rpc_reply \<times> backend"

text \<open>\<open>amount || offer.remaining_amount\<close>: an omitted amount and the amount 0 are falsy.\<close>

definition tradeAmount :: "rat option \<Rightarrow> P2PFiatOffer \<Rightarrow> rat" where
  "tradeAmount amt offer =
     (case amt of
        None \<Rightarrow> o_remaining_amount offer
      | Some a \<Rightarrow> if a = 0 then o_remaining_amount offer else a)"

text \<open>
  The block under \<open>Check reputation requirements\<close>: \<open>Some e\<close> is the error it throws,
  \<open>None\<close> means that it falls through to the remote call.
\<close>

definition reputation_requirements :: "backend \<Rightarrow> string \<Rightarrow> P2PFiatOffer \<Rightarrow> js_error option" where
  "reputation_requirements b userId offer =
     (if o_min_buyer_completed_trades offer > 0 \<or> o_min_buyer_reputation offer > 0 then
        (case select_reputation b userId of
           None \<Rightarrow> Some (Error ''Seller requires experienced buyers'')
         | Some reputation \<Rightarrow>
             if r_completed_trades reputation < o_min_buyer_completed_trades offer then
               Some (MinCompletedTradesError (o_min_buyer_completed_trades offer))
             else if r_reputation_score reputation < o_min_buyer_reputation offer then
               Some (MinReputationError (o_min_buyer_reputation offer))
             else None)
      else None)"

text \<open>What the function does with the reply of \<open>accept_p2p_offer\<close>.\<close>

definition accept_outcome :: "accept_response rpc_reply \<Rightarrow> js_error + string" where
  "accept_outcome reply =
     (case reply of
        RpcError e \<Rightarrow> Inl (Thrown e)
      | RpcData response \<Rightarrow>
          if \<not> success response then Inl (Error (error_or (error response) ''Failed to accept offer''))
          else Inr (trade_id response))"

definition acceptFiatOffer ::
  "accept_p2p_offer \<Rightarrow> accept_params \<Rightarrow> backend \<Rightarrow> (js_error + string) \<times> backend" where
  "acceptFiatOffer accept_p2p_offer params b =
     (case getUser b of
        None \<Rightarrow> (Inl (Error ''Not authenticated''), b)
      | Some userId \<Rightarrow>
          (case select_offer b (offerId params) of
             None \<Rightarrow> (Inl (Error ''Offer not found''), b)
           | Some offer \<Rightarrow>
               (case reputation_requirements b userId offer of
                  Some e \<Rightarrow> (Inl e, b)
                | None \<Rightarrow>
                    (case call_rpc accept_p2p_offer
                            \<lparr>p_offer_id = offerId params, p_buyer_id = userId,
                             p_buyer_wallet = buyerWallet params,
                             p_amount = tradeAmount (amount params) offer\<rparr> b of
                       (reply, b') \<Rightarrow> (accept_outcome reply, b')))))"

section \<open>Trades\<close>

text \<open>
  \<open>markPaymentSent\<close> reads the clock twice: \<open>now\<close> is \<open>Date.now()\<close> for the deadline,
  \<open>now'\<close> the later \<open>new Date()\<close> for \<open>buyer_marked_paid_at\<close>. An \<open>undefined\<close>
  \<open>paymentProofUrl\<close> is dropped from the request body, which leaves the column as it is.
  The function neither reads the trade nor asks who the caller is.
\<close>

definition markPaymentSent ::
  "int \<Rightarrow> int \<Rightarrow> string \<Rightarrow> string option \<Rightarrow> backend \<Rightarrow> (js_error + unit) \<times> backend" where
  "markPaymentSent now now' tradeId paymentProofUrl b =
     (let confirmationDeadline = now + 60 * 60 * 1000
      in case update_trade tradeId
                (\<lambda>t. t\<lparr>t_buyer_marked_paid_at := Some now',
                        t_buyer_payment_proof_url :=
                          (case paymentProofUrl of
                             None \<Rightarrow> t_buyer_payment_proof_url t
                           | Some url \<Rightarrow> Some url),
                        t_status := TradePaymentSent,
                        t_confirmation_deadline := Some confirmationDeadline\<rparr>) b of
           (Some e, b') \<Rightarrow> (Inl (Thrown e), b')
         | (None, b') \<Rightarrow> (Inr (), b'))"

record release_args =
  p_from_user_id :: string
  p_to_user_id :: string
  p_token :: CryptoToken
  p_release_amount :: rat
  p_reference_type :: string
  p_reference_id :: string

type_synonym release_escrow =
  "release_args \<Rightarrow> backend \<Rightarrow> rpc_response rpc_reply \<times> backend"

text \<open>
  \<open>confirmPaymentReceived\<close>: \<open>now\<close> and \<open>now'\<close> are the two clock readings of the final
  update. The trade is selected together with the token of its offer; when the offer row
  is missing the embedded object is \<open>null\<close> and reading its token throws. The reply of the
  final update is not inspected.
\<close>

definition confirmPaymentReceived ::
  "release_escrow \<Rightarrow> int \<Rightarrow> int \<Rightarrow> string \<Rightarrow> backend \<Rightarrow> (js_error + unit) \<times> backend" where
  "confirmPaymentReceived release_escrow_internal now now' tradeId b =
     (case getUser b of
        None \<Rightarrow> (Inl (Error ''Not authenticated''), b)
      | Some sellerId \<Rightarrow>
          if sellerId = [] then (Inl (Error ''Not authenticated''), b)
          else
            (case select_trade b tradeId of
               None \<Rightarrow> (Inl (Error ''Trade not found''), b)
             | Some trade \<Rightarrow>
                 if t_seller_id trade \<noteq> sellerId then (Inl (Error ''Only seller can confirm''), b)
                 else if t_status trade \<noteq> TradePaymentSent then
                   (Inl (Error ''Payment not marked as sent''), b)
                 else
                   (case single_row (filter (\<lambda>row. o_id row = t_offer_id trade) (p2p_fiat_offers b)) of
                      None \<Rightarrow> (Inl TypeError, b)
                    | Some offer \<Rightarrow>
                        (case call_rpc release_escrow_internal
                                \<lparr>p_from_user_id = t_seller_id trade,
                                 p_to_user_id = t_buyer_id trade,
                                 p_token = o_token offer,
                                 p_release_amount = t_crypto_amount trade,
                                 p_reference_type = ''trade'',
                                 p_reference_id = tradeId\<rparr> b of
                           (RpcError e, b1) \<Rightarrow> (Inl (Thrown e), b1)
                         | (RpcData response, b1) \<Rightarrow>
                             if \<not> success response then
                               (Inl (Error (error_or (error response) ''Failed to release'')), b1)
                             else
                               (Inr (),
                                snd (update_trade tradeId
                                       (\<lambda>t. t\<lparr>t_seller_confirmed_at := Some now,
                                               t_status := TradeCompleted,
                                               t_completed_at := Some now'\<rparr>) b1))))))"

text \<open>
  \<open>cancelTrade\<close>: after the status check the trade row is rewritten, then the offer is
  read again and, when it is found, rewritten with the restored amount and the status
  \<open>open\<close>. Neither reply is inspected; an \<open>undefined\<close> reason is dropped from the request
  body. No remote procedure is called.
\<close>

definition cancelTrade ::
  "string \<Rightarrow> string option \<Rightarrow> backend \<Rightarrow> (js_error + unit) \<times> backend" where
  "cancelTrade tradeId reason b =
     (case getUser b of
        None \<Rightarrow> (Inl (Error ''Not authenticated''), b)
      | Some userId \<Rightarrow>
          (case select_trade b tradeId of
             None \<Rightarrow> (Inl (Error ''Trade not found''), b)
           | Some trade \<Rightarrow>
               if t_status trade \<noteq> TradePending then
                 (Inl (Error ''Cannot cancel at this stage''), b)
               else
                 (let b1 = snd (update_trade tradeId
                                  (\<lambda>t. t\<lparr>t_status := TradeCancelled,
                                          t_cancelled_by := Some userId,
                                          t_cancel_reason :=
                                            (case reason of
                                               None \<Rightarrow> t_cancel_reason t
                                             | Some r \<Rightarrow> Some r)\<rparr>) b);
                      b2 = (case select_offer b1 (t_offer_id trade) of
                              None \<Rightarrow> b1
                            | Some offer \<Rightarrow>
                                snd (update_offer (t_offer_id trade)
                                       (\<lambda>row. row\<lparr>o_remaining_amount :=
                                                 o_remaining_amount offer + t_crypto_amount trade,
                                               o_status := OfferOpen\<rparr>) b1))
                  in (Inr (), b2))))"

section \<open>Database procedures described by the specification\<close>

text \<open>
  Modelled from the spec: the procedure \<open>release_escrow_internal\<close> runs in the database
  and is not part of the client module. Section 4.1 describes it as
  \<open>releaseTransfer(fromUserId, toUserId, token, amount)\<close>: atomically decrement
  \<open>from.locked\<close> by \<open>amount\<close> and increment \<open>to.available\<close> by \<open>amount\<close>; it fails with
  \<open>LockMismatch\<close> if \<open>from.locked < amount\<close>.
\<close>

definition releaseTransfer ::
  "string \<Rightarrow> string \<Rightarrow> CryptoToken \<Rightarrow> rat \<Rightarrow> (string \<times> CryptoToken \<Rightarrow> Balance)
     \<Rightarrow> (string \<times> CryptoToken \<Rightarrow> Balance) option" where
  "releaseTransfer fromUserId toUserId token amt L =
     (if locked (L (fromUserId, token)) < amt then None
      else
        (let L1 = L((fromUserId, token) :=
                      (L (fromUserId, token))\<lparr>locked := locked (L (fromUserId, token)) - amt\<rparr>)
         in Some (L1((toUserId, token) :=
                      (L1 (toUserId, token))\<lparr>available := available (L1 (toUserId, token)) + amt\<rparr>))))"

definition release_escrow_internal :: release_escrow where
  "release_escrow_internal args b =
     (case releaseTransfer (p_from_user_id args) (p_to_user_id args) (p_token args)
             (p_release_amount args) (ledger b) of
        None \<Rightarrow> (RpcData \<lparr>success = False, error = Some ''LockMismatch''\<rparr>, b)
      | Some L \<Rightarrow> (RpcData \<lparr>success = True, error = None\<rparr>, b\<lparr>ledger := L\<rparr>))"

text \<open>
  Modelled from the spec: the reservation inside the procedure \<open>accept_p2p_offer\<close> is
  not part of the client module. Section 4.2 describes it as \<open>tryReserve(offerId, amount)\<close>:
  it succeeds only if the offer's status is open, \<open>amount \<le> remainingAmount\<close> and the
  amount respects the offer's minimum and maximum order bounds; on success it decrements
  \<open>remainingAmount\<close> and, if that reaches zero, flips the status to locked. The result
  \<open>Inr\<close> carries the offer after the reservation.
\<close>

datatype reserve_error = OfferNotOpen | AmountExceedsRemaining | BelowMinOrder | AboveMaxOrder

definition tryReserve :: "P2PFiatOffer \<Rightarrow> rat \<Rightarrow> reserve_error + P2PFiatOffer" where
  "tryReserve offer amt =
     (if o_status offer \<noteq> OfferOpen then Inl OfferNotOpen
      else if amt > o_remaining_amount offer then Inl AmountExceedsRemaining
      else if (case o_min_order_amount offer of None \<Rightarrow> False | Some m \<Rightarrow> amt < m)
        then Inl BelowMinOrder
      else if (case o_max_order_amount offer of None \<Rightarrow> False | Some m \<Rightarrow> amt > m)
        then Inl AboveMaxOrder
      else Inr (offer\<lparr>o_remaining_amount := o_remaining_amount offer - amt,
                       o_status := (if o_remaining_amount offer - amt = 0 then OfferLocked
                                    else o_status offer)\<rparr>))"

text \<open>
  Modelled from the spec: section 4.2 requires the reservation to be linearizable, so
  concurrent calls on one offer take effect one after the other in some order. The
  function runs the calls in the order of the list and returns each call's result and
  the offer after the last one.
\<close>

fun reserve_in_order ::
  "P2PFiatOffer \<Rightarrow> rat list \<Rightarrow> (reserve_error + P2PFiatOffer) list \<times> P2PFiatOffer" where
  "reserve_in_order offer [] = ([], offer)"
| "reserve_in_order offer (amt # rest) =
     (case tryReserve offer amt of
        Inl e \<Rightarrow> (case reserve_in_order offer rest of (rs, final) \<Rightarrow> (Inl e # rs, final))
      | Inr offer' \<Rightarrow>
          (case reserve_in_order offer' rest of (rs, final) \<Rightarrow> (Inr offer' # rs, final)))"

text \<open>The amounts that the successful calls of a run reserved.\<close>

fun reserved_amounts :: "P2PFiatOffer \<Rightarrow> rat list \<Rightarrow> rat list" where
  "reserved_amounts offer [] = []"
| "reserved_amounts offer (amt # rest) =
     (case tryReserve offer amt of
        Inl e \<Rightarrow> reserved_amounts offer rest
      | Inr offer' \<Rightarrow> amt # reserved_amounts offer' rest)"

section \<open>Example data\<close>

text \<open>
  The scenarios of the specification: an offer of 100 HEZ at 2 USD with 70 remaining
  after a trade of 30, the maker's 100 HEZ locked.
\<close>

definition example_rule :: ValidationRule where
  "example_rule =
     \<lparr>pattern = Some ''^TR[0-9]+$'', minLength = Some 5, maxLength = None, required = None\<rparr>"

definition example_offer :: P2PFiatOffer where
  "example_offer =
     \<lparr>o_id = ''offer-1'', o_seller_id = ''maker'', o_seller_wallet = ''5Maker'',
      o_token = HEZ, o_amount_crypto = 100, o_fiat_currency = USD, o_fiat_amount = 200,
      o_price_per_unit = 2, o_payment_method_id = ''bank'',
      o_payment_details_encrypted = ''x'', o_min_order_amount = None,
      o_max_order_amount = None, o_time_limit_minutes = 30, o_auto_reply_message = None,
      o_min_buyer_completed_trades = 0, o_min_buyer_reputation = 0, o_status = OfferOpen,
      o_remaining_amount = 70, o_created_at = 0, o_expires_at = 86400000\<rparr>"

definition example_trade :: P2PFiatTrade where
  "example_trade =
     \<lparr>t_id = ''trade-1'', t_offer_id = ''offer-1'', t_seller_id = ''maker'',
      t_buyer_id = ''taker'', t_buyer_wallet = ''5Taker'', t_crypto_amount = 30,
      t_fiat_amount = 60, t_price_per_unit = 2, t_escrow_locked_amount = 30,
      t_buyer_marked_paid_at = None, t_buyer_payment_proof_url = None,
      t_seller_confirmed_at = None, t_status = TradePending, t_payment_deadline = 1800000,
      t_confirmation_deadline = None, t_created_at = 0, t_completed_at = None,
      t_cancelled_by = None, t_cancel_reason = None\<rparr>"

definition example_reputation :: P2PReputation where
  "example_reputation =
     \<lparr>r_user_id = ''taker'', r_total_trades = 3, r_completed_trades = 2,
      r_cancelled_trades = 1, r_disputed_trades = 0, r_reputation_score = 80,
      r_trust_level = Basic, r_verified_merchant = False,
      r_avg_payment_time_minutes = None\<rparr>"

definition example_ledger :: "string \<times> CryptoToken \<Rightarrow> Balance" where
  "example_ledger key =
     (if key = (''maker'', HEZ)
      then \<lparr>available = 0, locked = 100, totalDeposited = 100, totalWithdrawn = 0\<rparr>
      else \<lparr>available = 0, locked = 0, totalDeposited = 0, totalWithdrawn = 0\<rparr>)"

definition example_backend :: backend where
  "example_backend =
     \<lparr>unreachable = False, refused_updates = [], session_user = Some ''taker'',
      p2p_fiat_offers = [example_offer], p2p_fiat_trades = [example_trade],
      p2p_reputation = [example_reputation], ledger = example_ledger\<rparr>"

text \<open>
  A stand-in for the procedure \<open>accept_p2p_offer\<close>, used only to run the examples: it
  reserves the requested amount on the offer row and reports the new trade's id.
\<close>

definition example_accept :: accept_p2p_offer where
  "example_accept args b =
     (case select_offer b (p_offer_id args) of
        None \<Rightarrow> (RpcData \<lparr>success = False, error = Some ''Offer not found'', trade_id = []\<rparr>, b)
      | Some offer \<Rightarrow>
          (case tryReserve offer (p_amount args) of
             Inl e \<Rightarrow>
               (RpcData \<lparr>success = False, error = Some ''Reservation failed'', trade_id = []\<rparr>, b)
           | Inr offer' \<Rightarrow>
               (RpcData \<lparr>success = True, error = None, trade_id = ''trade-2''\<rparr>,
                b\<lparr>p2p_fiat_offers :=
                    update_rows (\<lambda>row. o_id row = p_offer_id args) (\<lambda>row. offer')
                      (p2p_fiat_offers b)\<rparr>)))"

text \<open>Scenario D: the offer asks for five completed trades, the taker has two.\<close>

definition gated_backend :: backend where
  "gated_backend =
     example_backend\<lparr>p2p_fiat_offers := [example_offer\<lparr>o_min_buyer_completed_trades := 5\<rparr>]\<rparr>"

text \<open>Scenario C: the taker has marked the payment as sent and the maker is signed in.\<close>

definition payment_sent_backend :: backend where
  "payment_sent_backend =
     example_backend\<lparr>session_user := Some ''maker'',
                      p2p_fiat_trades :=
                        [example_trade\<lparr>t_buyer_marked_paid_at := Some 600000,
                                       t_status := TradePaymentSent,
                                       t_confirmation_deadline := Some 4200000\<rparr>]\<rparr>"

text \<open>The same, when the database will refuse the next row update.\<close>

definition refusing_backend :: backend where
  "refusing_backend = payment_sent_backend\<lparr>refused_updates := [True]\<rparr>"

text \<open>
  A stand-in for the regular expression engine on the one pattern that the examples
  compile: \<open>(\<close> is not a regular expression, \<open>new RegExp\<close> throws on it.
\<close>

definition example_regex :: "string \<Rightarrow> js_value \<Rightarrow> bool option" where
  "example_regex p v = (if p = ''('' then None else Some True)"

text \<open>A completed trade, with a user signed in who is neither its maker nor its taker.\<close>

definition completed_backend :: backend where
  "completed_backend =
     example_backend\<lparr>session_user := Some ''stranger'',
                      p2p_fiat_trades :=
                        [example_trade\<lparr>t_buyer_marked_paid_at := Some 600000,
                                       t_seller_confirmed_at := Some 900000,
                                       t_status := TradeCompleted,
                                       t_confirmation_deadline := Some 4200000,
                                       t_completed_at := Some 900000\<rparr>]\<rparr>"

text \<open>The maker has cancelled the offer while the trade on it is still pending.\<close>

definition cancelled_offer_backend :: backend where
  "cancelled_offer_backend =
     example_backend\<lparr>p2p_fiat_offers := [example_offer\<lparr>o_status := OfferCancelled\<rparr>]\<rparr>"

text \<open>A book of four offers: two listable ones, a paused one and an expired one.\<close>

definition listing_backend :: backend where
  "listing_backend =
     example_backend\<lparr>p2p_fiat_offers :=
       [example_offer\<lparr>o_id := ''offer-3'', o_price_per_unit := 3\<rparr>,
        example_offer\<lparr>o_id := ''offer-2'', o_status := OfferPaused, o_price_per_unit := 1\<rparr>,
        example_offer,
        example_offer\<lparr>o_id := ''offer-4'', o_expires_at := 500\<rparr>]\<rparr>"

text \<open>The offer of the concurrency scenario: 10 remaining.\<close>

definition contended_offer :: P2PFiatOffer where
  "contended_offer = example_offer\<lparr>o_remaining_amount := 10\<rparr>"

section \<open>Properties of the store\<close>

lemmas example_defs = example_offer_def example_trade_def example_reputation_def
  example_ledger_def example_backend_def

lemmas store_defs = getUser_def select_offer_def select_trade_def select_reputation_def
  single_row_def update_rows_def next_update_def update_trade_def update_offer_def
  call_rpc_def

lemma getUser_reachable: "getUser b = Some u \<Longrightarrow> \<not> unreachable b"
  by (simp add: getUser_def split: if_splits)

lemma call_rpc_reachable: "\<not> unreachable b \<Longrightarrow> call_rpc proc args b = proc args b"
  by (simp add: call_rpc_def)

section \<open>Validation of payment details: properties\<close>

lemma not_inherited_not_proto: "object_prototype_member field = None \<Longrightarrow> field \<noteq> ''__proto__''"
  by (auto simp: object_prototype_member_def)

lemma check_field_map_of:
  "check_field rt field val rules errs = Inr errs' \<Longrightarrow> map_of errs x \<noteq> None
     \<Longrightarrow> map_of errs' x \<noteq> None"
  by (auto simp: check_field_def Let_def set_error_def update_conv'
      split: if_splits option.splits sum.splits)

lemma check_field_keys:
  "check_field rt field val rules errs = Inr errs' \<Longrightarrow> fst ` set errs \<subseteq> fst ` set errs'"
  using check_field_map_of[of rt field val rules errs errs']
  by (auto simp: map_of_eq_None_iff)

lemma validate_entries_keys:
  "validate_entries rt pd rs errs = Inr errs' \<Longrightarrow> fst ` set errs \<subseteq> fst ` set errs'"
proof (induction rs arbitrary: errs)
  case Nil
  then show ?case by simp
next
  case (Cons a rs)
  obtain f r where a: "a = (f, r)" by (cases a)
  from Cons.prems a obtain e1 where
    c: "check_field rt f (field_value pd f) r errs = Inr e1" and
    v: "validate_entries rt pd rs e1 = Inr errs'"
    by (auto split: sum.splits)
  from check_field_keys[OF c] Cons.IH[OF v] show ?case by blast
qed

lemma check_field_empty_minLength:
  assumes "check_field rt field (Str []) rules errs = Inr errs'"
    and "minLength rules = Some n" and "0 < n" and "field \<noteq> ''__proto__''"
  shows "field \<in> fst ` set errs'"
proof -
  from assms have "map_of errs' field \<noteq> None"
    by (auto simp: check_field_def Let_def truthy_def value_length_def set_error_def
        update_conv' split: if_splits option.splits sum.splits)
  then show ?thesis by (simp add: map_of_eq_None_iff)
qed

lemma check_field_empty_pattern:
  "check_field rt field (Str []) (rules\<lparr>pattern := p\<rparr>) errs
     = check_field rt field (Str []) rules errs"
  by (auto simp: check_field_def Let_def truthy_def split: option.splits)

lemma validate_entries_minLength:
  assumes "validate_entries rt pd rs errs = Inr errs'"
    and "(field, r) \<in> set rs" and "minLength r = Some n" and "0 < n"
    and "field_value pd field = Str []" and "field \<noteq> ''__proto__''"
  shows "field \<in> fst ` set errs'"
  using assms
proof (induction rs arbitrary: errs)
  case Nil
  then show ?case by simp
next
  case (Cons a rs)
  obtain f q where a: "a = (f, q)" by (cases a)
  from Cons.prems(1) a obtain e1 where
    c: "check_field rt f (field_value pd f) q errs = Inr e1" and
    v: "validate_entries rt pd rs e1 = Inr errs'"
    by (auto split: sum.splits)
  show ?case
  proof (cases "(field, r) = a")
    case True
    with a c Cons.prems have "field \<in> fst ` set e1"
      using check_field_empty_minLength[of rt field r errs e1 n] by simp
    with validate_entries_keys[OF v] show ?thesis by blast
  next
    case False
    with Cons.prems have "(field, r) \<in> set rs" by simp
    from Cons.IH[OF v this Cons.prems(3,4,5,6)] show ?thesis .
  qed
qed

lemma validate_entries_pattern:
  assumes "field_value pd field = Str []"
  shows "validate_entries rt pd (xs @ (field, r\<lparr>pattern := p\<rparr>) # ys) errs
       = validate_entries rt pd (xs @ (field, r) # ys) errs"
proof (induction xs arbitrary: errs)
  case Nil
  show ?case using assms by (simp add: check_field_empty_pattern)
next
  case (Cons a xs)
  obtain f q where a: "a = (f, q)" by (cases a)
  show ?case using Cons.IH by (simp add: a split: sum.splits)
qed

lemma field_value_empty:
  "object_prototype_member f = None \<Longrightarrow> pd f = None \<or> pd f = Some []
     \<Longrightarrow> field_value pd f = Str []"
  by (auto simp: field_value_def)

text \<open>
  Claim C10, as the code has it. Whenever \<open>validatePaymentDetails\<close> returns, \<open>valid\<close> is
  true exactly when the errors object has no keys. A field with a positive minimum length
  whose name is not a member of \<open>Object.prototype\<close> fails when it is left empty, whether
  or not it is marked required. For such a field and an empty value the pattern rule is
  skipped: the result does not depend on the pattern, which is not even compiled.
\<close>

theorem validatePaymentDetails_valid_iff_no_errors:
  "(\<forall>res. validatePaymentDetails rt pd rules = Inr res \<longrightarrow> (valid res \<longleftrightarrow> errors res = []))
   \<and> (\<forall>res field r n. validatePaymentDetails rt pd rules = Inr res \<and> (field, r) \<in> set rules
          \<and> minLength r = Some n \<and> 0 < n \<and> object_prototype_member field = None
          \<and> (pd field = None \<or> pd field = Some [])
        \<longrightarrow> field \<in> fst ` set (errors res) \<and> \<not> valid res)
   \<and> (\<forall>xs ys field r p. object_prototype_member field = None
          \<and> (pd field = None \<or> pd field = Some [])
        \<longrightarrow> validatePaymentDetails rt pd (xs @ (field, r\<lparr>pattern := p\<rparr>) # ys)
          = validatePaymentDetails rt pd (xs @ (field, r) # ys))"
proof (intro conjI allI impI)
  fix res assume "validatePaymentDetails rt pd rules = Inr res"
  then show "valid res \<longleftrightarrow> errors res = []"
    by (auto simp: validatePaymentDetails_def split: sum.splits)
next
  fix res field r n
  assume h: "validatePaymentDetails rt pd rules = Inr res \<and> (field, r) \<in> set rules
          \<and> minLength r = Some n \<and> 0 < n \<and> object_prototype_member field = None
          \<and> (pd field = None \<or> pd field = Some [])"
  then obtain errs where v: "validate_entries rt pd rules [] = Inr errs"
    and res: "res = \<lparr>valid = (length (map fst errs) = 0), errors = errs\<rparr>"
    by (auto simp: validatePaymentDetails_def split: sum.splits)
  from h have e: "field_value pd field = Str []" by (simp add: field_value_empty)
  from h have np: "field \<noteq> ''__proto__''" by (simp add: not_inherited_not_proto)
  from validate_entries_minLength[OF v _ _ _ e np] h have "field \<in> fst ` set errs" by blast
  then show "field \<in> fst ` set (errors res)" using res by simp
next
  fix res field r n
  assume h: "validatePaymentDetails rt pd rules = Inr res \<and> (field, r) \<in> set rules
          \<and> minLength r = Some n \<and> 0 < n \<and> object_prototype_member field = None
          \<and> (pd field = None \<or> pd field = Some [])"
  then obtain errs where v: "validate_entries rt pd rules [] = Inr errs"
    and res: "res = \<lparr>valid = (length (map fst errs) = 0), errors = errs\<rparr>"
    by (auto simp: validatePaymentDetails_def split: sum.splits)
  from h have e: "field_value pd field = Str []" by (simp add: field_value_empty)
  from h have np: "field \<noteq> ''__proto__''" by (simp add: not_inherited_not_proto)
  from validate_entries_minLength[OF v _ _ _ e np] h have "field \<in> fst ` set errs" by blast
  then show "\<not> valid res" using res by auto
next
  fix xs ys field r p
  assume "object_prototype_member field = None \<and> (pd field = None \<or> pd field = Some [])"
  then have "field_value pd field = Str []" by (simp add: field_value_empty)
  then show "validatePaymentDetails rt pd (xs @ (field, r\<lparr>pattern := p\<rparr>) # ys)
          = validatePaymentDetails rt pd (xs @ (field, r) # ys)"
    by (simp add: validatePaymentDetails_def validate_entries_pattern)
qed

theorem validatePaymentDetails_valid_iff_no_errors_witness:
  "validatePaymentDetails example_regex Map.empty [(''iban'', example_rule)]
     = Inr \<lparr>valid = False, errors = [(''iban'', MinimumCharacters 5)]\<rparr>
   \<and> (''iban'', example_rule) \<in> set [(''iban'', example_rule)]
   \<and> minLength example_rule = Some 5 \<and> object_prototype_member ''iban'' = None
   \<and> ''iban'' \<in> fst ` set (errors \<lparr>valid = False, errors = [(''iban'', MinimumCharacters 5)]\<rparr>)
   \<and> \<not> valid \<lparr>valid = False, errors = [(''iban'', MinimumCharacters 5)]\<rparr>
   \<and> validatePaymentDetails example_regex Map.empty
        [(''iban'', example_rule\<lparr>pattern := Some ''(''\<rparr>)]
     = Inr \<lparr>valid = False, errors = [(''iban'', MinimumCharacters 5)]\<rparr>"
proof -
  note T = validatePaymentDetails_valid_iff_no_errors
      [of example_regex Map.empty "[(''iban'', example_rule)]"]
  have i: "object_prototype_member ''iban'' = None"
    by (simp add: object_prototype_member_def)
  have e: "validatePaymentDetails example_regex Map.empty [(''iban'', example_rule)]
     = Inr \<lparr>valid = False, errors = [(''iban'', MinimumCharacters 5)]\<rparr>"
    by (simp add: validatePaymentDetails_def check_field_def field_value_def i truthy_def
        value_length_def set_error_def example_rule_def)
  have m: "minLength example_rule = Some 5" by (simp add: example_rule_def)
  from T[THEN conjunct2, THEN conjunct1, rule_format,
      where res = "\<lparr>valid = False, errors = [(''iban'', MinimumCharacters 5)]\<rparr>"
        and field = "''iban''" and r = example_rule and n = 5] e m i
  have f: "''iban'' \<in> fst ` set (errors \<lparr>valid = False, errors = [(''iban'', MinimumCharacters 5)]\<rparr>)
     \<and> \<not> valid \<lparr>valid = False, errors = [(''iban'', MinimumCharacters 5)]\<rparr>"
    by simp
  from T[THEN conjunct2, THEN conjunct2, rule_format,
      where xs = "[]" and ys = "[]" and field = "''iban''" and r = example_rule
        and p = "Some ''(''"] i
  have p: "validatePaymentDetails example_regex Map.empty
        [(''iban'', example_rule\<lparr>pattern := Some ''(''\<rparr>)]
     = validatePaymentDetails example_regex Map.empty [(''iban'', example_rule)]"
    by simp
  from e p m f i show ?thesis by simp
qed

text \<open>
  Claim C10 as stated speaks of every field and every rule set. Three runs on the empty
  payment-details object \<open>{}\<close> show where it fails. A minimum length of 0 records no
  error for the empty field \<open>iban\<close>. For the field \<open>__proto__\<close> with a minimum length of 5
  the value read is the prototype object, no error is recorded and the result is valid.
  For the field \<open>constructor\<close> the value read is a function, so the pattern is compiled
  although nothing was entered: with the pattern \<open>(\<close> the function throws, without a
  pattern it returns.
\<close>

theorem validatePaymentDetails_claim_counterexample:
  "validatePaymentDetails example_regex Map.empty
       [(''iban'', example_rule\<lparr>minLength := Some 0\<rparr>)]
     = Inr \<lparr>valid = True, errors = []\<rparr>
   \<and> validatePaymentDetails example_regex Map.empty
       [(''__proto__'', example_rule\<lparr>pattern := None\<rparr>)]
     = Inr \<lparr>valid = True, errors = []\<rparr>
   \<and> validatePaymentDetails example_regex Map.empty
       [(''constructor'', example_rule\<lparr>pattern := Some ''('', minLength := None\<rparr>)]
     = Inl SyntaxError
   \<and> validatePaymentDetails example_regex Map.empty
       [(''constructor'', example_rule\<lparr>pattern := None, minLength := None\<rparr>)]
     = Inr \<lparr>valid = True, errors = []\<rparr>"
  by (simp add: validatePaymentDetails_def check_field_def field_value_def
      object_prototype_member_def truthy_def value_length_def set_error_def example_rule_def
      example_regex_def)

section \<open>Listing of active offers\<close>

text \<open>
  Claim C7. Every offer in the sequence that \<open>getActiveOffers\<close> returns is a row of the
  offers table with status open, a remaining amount above 0 and an expiry later than the
  current time; it has the fiat currency and the token asked for, when they are given;
  and the sequence is sorted by \<open>price_per_unit\<close> in ascending order.
\<close>

theorem getActiveOffers_open_and_sorted:
  "(\<forall>offer \<in> set (getActiveOffers now currency token b).
       offer \<in> set (p2p_fiat_offers b)
       \<and> o_status offer = OfferOpen \<and> 0 < o_remaining_amount offer \<and> now < o_expires_at offer
       \<and> (\<forall>c. currency = Some c \<longrightarrow> o_fiat_currency offer = c)
       \<and> (\<forall>t. token = Some t \<longrightarrow> o_token offer = t))
   \<and> sorted (map o_price_per_unit (getActiveOffers now currency token b))"
  by (auto simp: getActiveOffers_def split: option.splits)

theorem getActiveOffers_open_and_sorted_witness:
  "getActiveOffers 1000 (Some USD) (Some HEZ) listing_backend
     = [example_offer, example_offer\<lparr>o_id := ''offer-3'', o_price_per_unit := 3\<rparr>]
   \<and> example_offer \<in> set (getActiveOffers 1000 (Some USD) (Some HEZ) listing_backend)
   \<and> o_status example_offer = OfferOpen \<and> 0 < o_remaining_amount example_offer
   \<and> 1000 < o_expires_at example_offer \<and> o_fiat_currency example_offer = USD
   \<and> o_token example_offer = HEZ
   \<and> sorted (map o_price_per_unit (getActiveOffers 1000 (Some USD) (Some HEZ) listing_backend))"
proof -
  have e: "getActiveOffers 1000 (Some USD) (Some HEZ) listing_backend
     = [example_offer, example_offer\<lparr>o_id := ''offer-3'', o_price_per_unit := 3\<rparr>]"
    by (simp add: getActiveOffers_def listing_backend_def example_backend_def example_offer_def)
  then have m: "example_offer \<in> set (getActiveOffers 1000 (Some USD) (Some HEZ) listing_backend)"
    by simp
  note T = getActiveOffers_open_and_sorted[of 1000 "Some USD" "Some HEZ" listing_backend]
  from T[THEN conjunct1, rule_format, OF m] T[THEN conjunct2] e m show ?thesis
    by simp
qed

section \<open>Accepting an offer\<close>

lemma acceptFiatOffer_gate_rejects:
  "getUser b = Some userId \<Longrightarrow> select_offer b (offerId params) = Some offer
     \<Longrightarrow> reputation_requirements b userId offer = Some e
     \<Longrightarrow> acceptFiatOffer rpc params b = (Inl e, b)"
  by (simp add: acceptFiatOffer_def)

lemma acceptFiatOffer_rpc_call:
  "getUser b = Some userId \<Longrightarrow> select_offer b (offerId params) = Some offer
     \<Longrightarrow> reputation_requirements b userId offer = None
     \<Longrightarrow> acceptFiatOffer rpc params b =
           (case rpc \<lparr>p_offer_id = offerId params, p_buyer_id = userId,
                      p_buyer_wallet = buyerWallet params,
                      p_amount = tradeAmount (amount params) offer\<rparr> b of
              (reply, b') \<Rightarrow> (accept_outcome reply, b'))"
  by (simp add: acceptFiatOffer_def call_rpc_reachable getUser_reachable)

lemma example_accept_all:
  "example_accept \<lparr>p_offer_id = ''offer-1'', p_buyer_id = ''taker'', p_buyer_wallet = ''5Taker'',
                   p_amount = 70\<rparr> example_backend
     = (RpcData \<lparr>success = True, error = None, trade_id = ''trade-2''\<rparr>,
        example_backend\<lparr>p2p_fiat_offers :=
          [example_offer\<lparr>o_remaining_amount := 0, o_status := OfferLocked\<rparr>]\<rparr>)"
  by (simp add: example_accept_def tryReserve_def store_defs example_defs)

lemma example_accept_preconditions:
  "getUser example_backend = Some ''taker''"
  "select_offer example_backend ''offer-1'' = Some example_offer"
  "reputation_requirements example_backend ''taker'' example_offer = None"
  "o_remaining_amount example_offer = 70"
  by (simp_all add: reputation_requirements_def store_defs example_defs)

text \<open>
  Claim C4. When the offer sets a non-zero threshold for completed trades or for the
  reputation score (thresholds are counts and scores, hence not negative),
  \<open>acceptFiatOffer\<close> rejects a taker without a reputation row with the error
  \<open>Seller requires experienced buyers\<close> (the specification's \<open>InsufficientHistory\<close>), a
  taker with too few completed trades and a taker with too low a score. In each case the
  state returned is the state given, whatever the procedure \<open>accept_p2p_offer\<close> would
  do: the remote call is not reached.
\<close>

theorem acceptFiatOffer_reputation_gate:
  assumes "getUser b = Some userId" and "select_offer b (offerId params) = Some offer"
    and "0 \<le> o_min_buyer_completed_trades offer" and "0 \<le> o_min_buyer_reputation offer"
    and "o_min_buyer_completed_trades offer \<noteq> 0 \<or> o_min_buyer_reputation offer \<noteq> 0"
  shows "(select_reputation b userId = None \<longrightarrow>
            acceptFiatOffer rpc params b
              = (Inl (Error ''Seller requires experienced buyers''), b))
       \<and> (\<forall>rep. select_reputation b userId = Some rep
              \<and> r_completed_trades rep < o_min_buyer_completed_trades offer \<longrightarrow>
            acceptFiatOffer rpc params b
              = (Inl (MinCompletedTradesError (o_min_buyer_completed_trades offer)), b))
       \<and> (\<forall>rep. select_reputation b userId = Some rep
              \<and> \<not> r_completed_trades rep < o_min_buyer_completed_trades offer
              \<and> r_reputation_score rep < o_min_buyer_reputation offer \<longrightarrow>
            acceptFiatOffer rpc params b
              = (Inl (MinReputationError (o_min_buyer_reputation offer)), b))
       \<and> (\<forall>rep. select_reputation b userId = Some rep
              \<and> (r_completed_trades rep < o_min_buyer_completed_trades offer
                   \<or> r_reputation_score rep < o_min_buyer_reputation offer) \<longrightarrow>
            (\<exists>e. acceptFiatOffer rpc params b = (Inl e, b)))"
proof -
  from assms(3,4,5) have
    g: "o_min_buyer_completed_trades offer > 0 \<or> o_min_buyer_reputation offer > 0"
    by linarith
  show ?thesis
  proof (intro conjI allI impI)
    assume "select_reputation b userId = None"
    with g have "reputation_requirements b userId offer
        = Some (Error ''Seller requires experienced buyers'')"
      by (simp add: reputation_requirements_def)
    from acceptFiatOffer_gate_rejects[OF assms(1,2) this]
    show "acceptFiatOffer rpc params b
              = (Inl (Error ''Seller requires experienced buyers''), b)" .
  next
    fix rep
    assume "select_reputation b userId = Some rep
              \<and> r_completed_trades rep < o_min_buyer_completed_trades offer"
    with g have "reputation_requirements b userId offer
        = Some (MinCompletedTradesError (o_min_buyer_completed_trades offer))"
      by (simp add: reputation_requirements_def)
    from acceptFiatOffer_gate_rejects[OF assms(1,2) this]
    show "acceptFiatOffer rpc params b
              = (Inl (MinCompletedTradesError (o_min_buyer_completed_trades offer)), b)" .
  next
    fix rep
    assume "select_reputation b userId = Some rep
              \<and> \<not> r_completed_trades rep < o_min_buyer_completed_trades offer
              \<and> r_reputation_score rep < o_min_buyer_reputation offer"
    with g have "reputation_requirements b userId offer
        = Some (MinReputationError (o_min_buyer_reputation offer))"
      by (simp add: reputation_requirements_def)
    from acceptFiatOffer_gate_rejects[OF assms(1,2) this]
    show "acceptFiatOffer rpc params b
              = (Inl (MinReputationError (o_min_buyer_reputation offer)), b)" .
  next
    fix rep
    assume "select_reputation b userId = Some rep
              \<and> (r_completed_trades rep < o_min_buyer_completed_trades offer
                   \<or> r_reputation_score rep < o_min_buyer_reputation offer)"
    with g have "\<exists>e. reputation_requirements b userId offer = Some e"
      by (auto simp: reputation_requirements_def)
    then obtain e where "reputation_requirements b userId offer = Some e" ..
    from acceptFiatOffer_gate_rejects[OF assms(1,2) this]
    show "\<exists>e. acceptFiatOffer rpc params b = (Inl e, b)" ..
  qed
qed

theorem acceptFiatOffer_reputation_gate_witness:
  "getUser gated_backend = Some ''taker''
   \<and> map_option o_min_buyer_completed_trades (select_offer gated_backend ''offer-1'') = Some 5
   \<and> map_option r_completed_trades (select_reputation gated_backend ''taker'') = Some 2
   \<and> acceptFiatOffer example_accept
        \<lparr>offerId = ''offer-1'', buyerWallet = ''5Taker'', amount = Some 30\<rparr> gated_backend
       = (Inl (MinCompletedTradesError 5), gated_backend)"
proof -
  define offer where "offer = example_offer\<lparr>o_min_buyer_completed_trades := 5\<rparr>"
  have u: "getUser gated_backend = Some ''taker''"
    by (simp add: store_defs gated_backend_def example_backend_def)
  have o: "select_offer gated_backend
             (offerId \<lparr>offerId = ''offer-1'', buyerWallet = ''5Taker'', amount = Some 30\<rparr>)
           = Some offer"
    by (simp add: store_defs gated_backend_def example_backend_def example_offer_def offer_def)
  have r: "select_reputation gated_backend ''taker'' = Some example_reputation"
    by (simp add: store_defs gated_backend_def example_backend_def example_reputation_def)
  have f: "0 \<le> o_min_buyer_completed_trades offer" "0 \<le> o_min_buyer_reputation offer"
    "o_min_buyer_completed_trades offer \<noteq> 0 \<or> o_min_buyer_reputation offer \<noteq> 0"
    "o_min_buyer_completed_trades offer = 5" "r_completed_trades example_reputation = 2"
    by (simp_all add: offer_def example_offer_def example_reputation_def)
  from acceptFiatOffer_reputation_gate[OF u o f(1,2,3), of example_accept,
      THEN conjunct2, THEN conjunct1, rule_format, of example_reputation] r f
  have "acceptFiatOffer example_accept
        \<lparr>offerId = ''offer-1'', buyerWallet = ''5Taker'', amount = Some 30\<rparr> gated_backend
       = (Inl (MinCompletedTradesError 5), gated_backend)"
    by simp
  with u o r f show ?thesis by simp
qed

text \<open>
  Claim C8. When \<open>acceptFiatOffer\<close> is called without an amount, the trade amount is the
  remaining amount of the offer row as it was read, and the call of \<open>accept_p2p_offer\<close>
  receives exactly that amount as \<open>p_amount\<close>.
\<close>

theorem acceptFiatOffer_default_amount:
  assumes "amount params = None"
    and "getUser b = Some userId" and "select_offer b (offerId params) = Some offer"
    and "reputation_requirements b userId offer = None"
  shows "tradeAmount (amount params) offer = o_remaining_amount offer
       \<and> acceptFiatOffer rpc params b =
           (case rpc \<lparr>p_offer_id = offerId params, p_buyer_id = userId,
                      p_buyer_wallet = buyerWallet params,
                      p_amount = o_remaining_amount offer\<rparr> b of
              (reply, b') \<Rightarrow> (accept_outcome reply, b'))"
  using acceptFiatOffer_rpc_call[OF assms(2,3,4), of rpc] assms(1)
  by (simp add: tradeAmount_def)

theorem acceptFiatOffer_default_amount_witness:
  "getUser example_backend = Some ''taker''
   \<and> select_offer example_backend ''offer-1'' = Some example_offer
   \<and> o_remaining_amount example_offer = 70
   \<and> acceptFiatOffer example_accept
        \<lparr>offerId = ''offer-1'', buyerWallet = ''5Taker'', amount = None\<rparr> example_backend
       = (Inr ''trade-2'',
          example_backend\<lparr>p2p_fiat_offers :=
            [example_offer\<lparr>o_remaining_amount := 0, o_status := OfferLocked\<rparr>]\<rparr>)"
proof -
  let ?params = "\<lparr>offerId = ''offer-1'', buyerWallet = ''5Taker'', amount = None\<rparr>"
  have a: "amount ?params = None" by simp
  have o: "select_offer example_backend (offerId ?params) = Some example_offer"
    by (simp add: example_accept_preconditions)
  from acceptFiatOffer_default_amount
        [OF a example_accept_preconditions(1) o example_accept_preconditions(3),
          of example_accept, THEN conjunct2]
  have "acceptFiatOffer example_accept ?params example_backend
       = (Inr ''trade-2'',
          example_backend\<lparr>p2p_fiat_offers :=
            [example_offer\<lparr>o_remaining_amount := 0, o_status := OfferLocked\<rparr>]\<rparr>)"
    by (simp add: example_accept_preconditions(4) example_accept_all accept_outcome_def)
  with example_accept_preconditions show ?thesis by simp
qed

text \<open>
  Claim C9. An explicit amount of exactly 0 is not rejected as malformed:
  \<open>acceptFiatOffer\<close> behaves as it does when the amount is omitted, so the amount passed
  to \<open>accept_p2p_offer\<close> is the offer's full remaining amount.
\<close>

theorem acceptFiatOffer_zero_amount:
  "acceptFiatOffer rpc (params\<lparr>amount := Some 0\<rparr>) b
     = acceptFiatOffer rpc (params\<lparr>amount := None\<rparr>) b
   \<and> (\<forall>userId offer. getUser b = Some userId \<and> select_offer b (offerId params) = Some offer
          \<and> reputation_requirements b userId offer = None \<longrightarrow>
        acceptFiatOffer rpc (params\<lparr>amount := Some 0\<rparr>) b =
           (case rpc \<lparr>p_offer_id = offerId params, p_buyer_id = userId,
                      p_buyer_wallet = buyerWallet params,
                      p_amount = o_remaining_amount offer\<rparr> b of
              (reply, b') \<Rightarrow> (accept_outcome reply, b')))"
proof (intro conjI allI impI)
  show "acceptFiatOffer rpc (params\<lparr>amount := Some 0\<rparr>) b
     = acceptFiatOffer rpc (params\<lparr>amount := None\<rparr>) b"
    by (simp add: acceptFiatOffer_def tradeAmount_def split: option.splits)
next
  fix userId offer
  assume h: "getUser b = Some userId \<and> select_offer b (offerId params) = Some offer
          \<and> reputation_requirements b userId offer = None"
  then have "select_offer b (offerId (params\<lparr>amount := Some 0\<rparr>)) = Some offer" by simp
  from acceptFiatOffer_rpc_call[OF _ this, of userId rpc] h
  show "acceptFiatOffer rpc (params\<lparr>amount := Some 0\<rparr>) b =
           (case rpc \<lparr>p_offer_id = offerId params, p_buyer_id = userId,
                      p_buyer_wallet = buyerWallet params,
                      p_amount = o_remaining_amount offer\<rparr> b of
              (reply, b') \<Rightarrow> (accept_outcome reply, b'))"
    by (simp add: tradeAmount_def)
qed

theorem acceptFiatOffer_zero_amount_witness:
  "getUser example_backend = Some ''taker''
   \<and> select_offer example_backend ''offer-1'' = Some example_offer
   \<and> o_remaining_amount example_offer = 70
   \<and> acceptFiatOffer example_accept
        \<lparr>offerId = ''offer-1'', buyerWallet = ''5Taker'', amount = Some 0\<rparr> example_backend
       = (Inr ''trade-2'',
          example_backend\<lparr>p2p_fiat_offers :=
            [example_offer\<lparr>o_remaining_amount := 0, o_status := OfferLocked\<rparr>]\<rparr>)
   \<and> acceptFiatOffer example_accept
        \<lparr>offerId = ''offer-1'', buyerWallet = ''5Taker'', amount = None\<rparr> example_backend
       = (Inr ''trade-2'',
          example_backend\<lparr>p2p_fiat_offers :=
            [example_offer\<lparr>o_remaining_amount := 0, o_status := OfferLocked\<rparr>]\<rparr>)"
proof -
  let ?params = "\<lparr>offerId = ''offer-1'', buyerWallet = ''5Taker'', amount = Some 30\<rparr>"
  note T = acceptFiatOffer_zero_amount[of example_accept ?params example_backend]
  from T[THEN conjunct2, rule_format, of "''taker''" example_offer]
  have z: "acceptFiatOffer example_accept (?params\<lparr>amount := Some 0\<rparr>) example_backend
       = (Inr ''trade-2'',
          example_backend\<lparr>p2p_fiat_offers :=
            [example_offer\<lparr>o_remaining_amount := 0, o_status := OfferLocked\<rparr>]\<rparr>)"
    by (simp add: example_accept_preconditions example_accept_all accept_outcome_def)
  from T[THEN conjunct1] z
  have n: "acceptFiatOffer example_accept (?params\<lparr>amount := None\<rparr>) example_backend
       = (Inr ''trade-2'',
          example_backend\<lparr>p2p_fiat_offers :=
            [example_offer\<lparr>o_remaining_amount := 0, o_status := OfferLocked\<rparr>]\<rparr>)"
    by simp
  from z n example_accept_preconditions show ?thesis by simp
qed

section \<open>Reservations on one offer\<close>

lemma tryReserve_remaining:
  "tryReserve offer amt = Inr offer' \<Longrightarrow>
     o_remaining_amount offer' = o_remaining_amount offer - amt \<and> amt \<le> o_remaining_amount offer"
  by (auto simp: tryReserve_def split: if_splits)

lemma reserve_in_order_conservation:
  "o_remaining_amount (snd (reserve_in_order offer amts))
     = o_remaining_amount offer - sum_list (reserved_amounts offer amts)"
proof (induction amts arbitrary: offer)
  case Nil
  show ?case by simp
next
  case (Cons a amts)
  show ?case
  proof (cases "tryReserve offer a")
    case (Inl e)
    then show ?thesis using Cons.IH[of offer] by (simp add: case_prod_beta)
  next
    case (Inr offer')
    then show ?thesis
      using Cons.IH[of offer'] tryReserve_remaining[OF Inr]
      by (simp add: case_prod_beta)
  qed
qed

lemma reserve_in_order_nonneg:
  "0 \<le> o_remaining_amount offer \<Longrightarrow> 0 \<le> o_remaining_amount (snd (reserve_in_order offer amts))"
proof (induction amts arbitrary: offer)
  case Nil
  then show ?case by simp
next
  case (Cons a amts)
  show ?case
  proof (cases "tryReserve offer a")
    case (Inl e)
    then show ?thesis using Cons.IH[of offer] Cons.prems
      by (simp add: case_prod_beta)
  next
    case (Inr offer')
    with tryReserve_remaining[OF Inr] have "0 \<le> o_remaining_amount offer'" by simp
    then show ?thesis using Cons.IH[of offer'] Inr
      by (simp add: case_prod_beta)
  qed
qed

lemma reserve_in_order_exceeds:
  "o_status offer = OfferOpen \<Longrightarrow> o_remaining_amount offer < amt \<Longrightarrow>
     reserve_in_order offer (replicate n amt) = (replicate n (Inl AmountExceedsRemaining), offer)"
  by (induction n) (simp_all add: tryReserve_def)

text \<open>
  Claim C6. Concurrent reservations on one offer never consume the same unit of the
  remaining amount: in every order in which the calls take effect, the amounts reserved
  by the successful calls add up to at most the remaining amount, and the offer is left
  with the difference. With an open offer, 10 remaining and any number of calls (at least
  one) that each ask for 6, an amount within the order bounds, exactly one call succeeds,
  every other call fails with \<open>AmountExceedsRemaining\<close>, and 4 remain.
\<close>

theorem reserve_linearized:
  "(0 \<le> o_remaining_amount offer \<longrightarrow>
      (\<forall>amts. sum_list (reserved_amounts offer amts) \<le> o_remaining_amount offer
          \<and> o_remaining_amount (snd (reserve_in_order offer amts))
              = o_remaining_amount offer - sum_list (reserved_amounts offer amts)))
   \<and> (o_status offer = OfferOpen \<and> o_remaining_amount offer = 10
        \<and> (\<forall>m. o_min_order_amount offer = Some m \<longrightarrow> m \<le> 6)
        \<and> (\<forall>m. o_max_order_amount offer = Some m \<longrightarrow> 6 \<le> m) \<longrightarrow>
      (\<forall>n. reserve_in_order offer (replicate (Suc n) 6)
             = (Inr (offer\<lparr>o_remaining_amount := 4\<rparr>)
                  # replicate n (Inl AmountExceedsRemaining),
                offer\<lparr>o_remaining_amount := 4\<rparr>)))"
proof (intro conjI allI impI)
  fix amts
  assume "0 \<le> o_remaining_amount offer"
  then have "0 \<le> o_remaining_amount (snd (reserve_in_order offer amts))"
    by (rule reserve_in_order_nonneg)
  then show "sum_list (reserved_amounts offer amts) \<le> o_remaining_amount offer"
    by (simp add: reserve_in_order_conservation)
next
  fix amts
  show "o_remaining_amount (snd (reserve_in_order offer amts))
          = o_remaining_amount offer - sum_list (reserved_amounts offer amts)"
    by (rule reserve_in_order_conservation)
next
  fix n
  assume h: "o_status offer = OfferOpen \<and> o_remaining_amount offer = 10
        \<and> (\<forall>m. o_min_order_amount offer = Some m \<longrightarrow> m \<le> 6)
        \<and> (\<forall>m. o_max_order_amount offer = Some m \<longrightarrow> 6 \<le> m)"
  then have first: "tryReserve offer 6 = Inr (offer\<lparr>o_remaining_amount := 4\<rparr>)"
    by (auto simp: tryReserve_def split: option.splits)
  have "reserve_in_order (offer\<lparr>o_remaining_amount := 4\<rparr>) (replicate n 6)
          = (replicate n (Inl AmountExceedsRemaining), offer\<lparr>o_remaining_amount := 4\<rparr>)"
    by (rule reserve_in_order_exceeds) (simp_all add: h)
  with first show "reserve_in_order offer (replicate (Suc n) 6)
           = (Inr (offer\<lparr>o_remaining_amount := 4\<rparr>) # replicate n (Inl AmountExceedsRemaining),
              offer\<lparr>o_remaining_amount := 4\<rparr>)"
    by simp
qed

theorem reserve_linearized_witness:
  "o_status contended_offer = OfferOpen \<and> o_remaining_amount contended_offer = 10
   \<and> o_min_order_amount contended_offer = None \<and> o_max_order_amount contended_offer = None
   \<and> reserve_in_order contended_offer [6, 6, 6]
       = ([Inr (contended_offer\<lparr>o_remaining_amount := 4\<rparr>), Inl AmountExceedsRemaining,
           Inl AmountExceedsRemaining],
          contended_offer\<lparr>o_remaining_amount := 4\<rparr>)
   \<and> sum_list (reserved_amounts contended_offer [6, 6, 6]) \<le> 10"
proof -
  have h: "o_status contended_offer = OfferOpen" "o_remaining_amount contended_offer = 10"
    "o_min_order_amount contended_offer = None" "o_max_order_amount contended_offer = None"
    by (simp_all add: contended_offer_def example_offer_def)
  note T = reserve_linearized[of contended_offer]
  have r: "replicate (Suc 2) (6::rat) = [6, 6, 6]" by (simp add: numeral_2_eq_2)
  from T[THEN conjunct2, rule_format, of 2] h
  have a: "reserve_in_order contended_offer [6, 6, 6]
       = ([Inr (contended_offer\<lparr>o_remaining_amount := 4\<rparr>), Inl AmountExceedsRemaining,
           Inl AmountExceedsRemaining],
          contended_offer\<lparr>o_remaining_amount := 4\<rparr>)"
    by (simp only: r) (simp add: numeral_2_eq_2)
  from T[THEN conjunct1, rule_format, of "[6, 6, 6]"] h
  have b: "sum_list (reserved_amounts contended_offer [6, 6, 6]) \<le> 10" by simp
  from h a b show ?thesis by simp
qed

section \<open>Marking a payment as sent\<close>

text \<open>
  Claim C3. \<open>markPaymentSent\<close> is to succeed only for a pending trade and for its taker,
  and to change nothing otherwise. The function has no such guard: on a completed trade,
  with a user signed in who is not the taker, it succeeds, sets the status back to
  \<open>payment_sent\<close> and sets a new confirmation deadline.
\<close>

theorem markPaymentSent_unguarded:
  "getUser completed_backend = Some ''stranger''
   \<and> map_option t_status (select_trade completed_backend ''trade-1'') = Some TradeCompleted
   \<and> map_option t_buyer_id (select_trade completed_backend ''trade-1'') = Some ''taker''
   \<and> fst (markPaymentSent 5000000 5000000 ''trade-1'' None completed_backend) = Inr ()
   \<and> map_option t_status
        (select_trade (snd (markPaymentSent 5000000 5000000 ''trade-1'' None completed_backend))
           ''trade-1'') = Some TradePaymentSent
   \<and> map_option t_confirmation_deadline
        (select_trade (snd (markPaymentSent 5000000 5000000 ''trade-1'' None completed_backend))
           ''trade-1'') = Some (Some 8600000)"
  by (simp add: markPaymentSent_def store_defs completed_backend_def example_defs Let_def)

section \<open>Confirming a payment\<close>

text \<open>
  Claim C2. A successful \<open>confirmPaymentReceived\<close> is to leave the trade \<open>completed\<close>,
  so that a further call is rejected and releases nothing. The function does check the
  caller and the status and does call the release, but it discards the reply of the
  update that writes \<open>completed\<close>, where \<open>markPaymentSent\<close> throws the error of its
  update. When the database refuses that update, the call still succeeds: the maker's
  30 have moved to the taker while the trade is still \<open>payment_sent\<close>, and a second
  call passes the same checks and releases another 30. The ledger procedure is the one
  modelled from section 4.1 of the specification.
\<close>

theorem confirmPaymentReceived_releases_twice:
  "getUser refusing_backend = Some ''maker''
   \<and> map_option t_seller_id (select_trade refusing_backend ''trade-1'') = Some ''maker''
   \<and> map_option t_status (select_trade refusing_backend ''trade-1'') = Some TradePaymentSent
   \<and> locked (ledger refusing_backend (''maker'', HEZ)) = 100
   \<and> available (ledger refusing_backend (''taker'', HEZ)) = 0
   \<and> fst (confirmPaymentReceived release_escrow_internal 900000 900001 ''trade-1''
             refusing_backend) = Inr ()
   \<and> map_option t_status
        (select_trade (snd (confirmPaymentReceived release_escrow_internal 900000 900001
           ''trade-1'' refusing_backend)) ''trade-1'') = Some TradePaymentSent
   \<and> locked (ledger (snd (confirmPaymentReceived release_escrow_internal 900000 900001
        ''trade-1'' refusing_backend)) (''maker'', HEZ)) = 70
   \<and> available (ledger (snd (confirmPaymentReceived release_escrow_internal 900000 900001
        ''trade-1'' refusing_backend)) (''taker'', HEZ)) = 30
   \<and> fst (confirmPaymentReceived release_escrow_internal 900002 900003 ''trade-1''
        (snd (confirmPaymentReceived release_escrow_internal 900000 900001 ''trade-1''
           refusing_backend))) = Inr ()
   \<and> locked (ledger (snd (confirmPaymentReceived release_escrow_internal 900002 900003
        ''trade-1'' (snd (confirmPaymentReceived release_escrow_internal 900000 900001
           ''trade-1'' refusing_backend)))) (''maker'', HEZ)) = 40
   \<and> available (ledger (snd (confirmPaymentReceived release_escrow_internal 900002 900003
        ''trade-1'' (snd (confirmPaymentReceived release_escrow_internal 900000 900001
           ''trade-1'' refusing_backend)))) (''taker'', HEZ)) = 60"
  by (simp add: confirmPaymentReceived_def release_escrow_internal_def releaseTransfer_def
      store_defs refusing_backend_def payment_sent_backend_def example_defs Let_def)

section \<open>Cancelling a trade\<close>


text \<open>
  \<open>cancelTrade\<close> also discards the replies of both of its updates. When the database
  refuses the update of the trade row, the call still succeeds and restores the offer
  while the trade stays \<open>pending\<close>; a second call then cancels the trade and restores the
  offer once more, to 130 of an offer of 100.
\<close>

lemma cancelTrade_discards_refusal:
  "fst (cancelTrade ''trade-1'' None (example_backend\<lparr>refused_updates := [True]\<rparr>)) = Inr ()
   \<and> map_option t_status
        (select_trade (snd (cancelTrade ''trade-1'' None
           (example_backend\<lparr>refused_updates := [True]\<rparr>))) ''trade-1'') = Some TradePending
   \<and> map_option o_remaining_amount
        (select_offer (snd (cancelTrade ''trade-1'' None
           (example_backend\<lparr>refused_updates := [True]\<rparr>))) ''offer-1'') = Some 100
   \<and> fst (cancelTrade ''trade-1'' None (snd (cancelTrade ''trade-1'' None
           (example_backend\<lparr>refused_updates := [True]\<rparr>)))) = Inr ()
   \<and> map_option o_remaining_amount
        (select_offer (snd (cancelTrade ''trade-1'' None (snd (cancelTrade ''trade-1'' None
           (example_backend\<lparr>refused_updates := [True]\<rparr>))))) ''offer-1'') = Some 130"
  by (simp add: cancelTrade_def store_defs example_defs Let_def)

text \<open>
  Claim C5. An offer that its maker has cancelled is never to return to the status
  \<open>open\<close>. \<open>cancelTrade\<close> writes the status \<open>open\<close> together with the restored amount
  without reading the offer's status: cancelling the pending trade of a cancelled offer
  reopens the offer.
\<close>

theorem cancelTrade_reopens_cancelled_offer:
  "map_option o_status (select_offer cancelled_offer_backend ''offer-1'') = Some OfferCancelled
   \<and> fst (cancelTrade ''trade-1'' None cancelled_offer_backend) = Inr ()
   \<and> map_option o_status
        (select_offer (snd (cancelTrade ''trade-1'' None cancelled_offer_backend)) ''offer-1'')
       = Some OfferOpen"
  by (simp add: cancelTrade_def store_defs cancelled_offer_backend_def example_defs Let_def)

end
